theory Spec2Isabelle
  imports Complex_Main "HOL-Library.Log_Nat"
begin

section \<open>JavaScript values used by the pages and the product API\<close>

text \<open>
  A JavaScript string is a sequence of UTF-16 code units. The literals of the source that
  hold only ASCII are written through \<open>js\<close>; the Japanese product names are given by
  their code units.
\<close>

type_synonym jsstring = "nat list"

definition js :: "string \<Rightarrow> jsstring" where
  "js s = map of_char s"

text \<open>
  What \<open>request.json()\<close> and \<open>res.json()\<close> resolve to: a parsed JSON value. An object
  is the list of its own properties, in the order in which \<open>JSON.stringify\<close> writes
  them again. A number is the IEEE
  double that \<open>JSON.parse\<close> produced, not the literal as written: \<open>JNum x\<close> is a
  finite double, given by the real number \<open>x\<close> it equals, so a literal that underflows
  (\<open>1e-324\<close>) is \<open>JNum 0\<close>; \<open>JInfinity\<close> is the infinity that a literal beyond the
  range of doubles (\<open>1e400\<close>) parses to, with \<open>True\<close> for the positive one.
\<close>

datatype json =
    JNull
  | JBool bool
  | JNum real
  | JInfinity bool
  | JStr jsstring
  | JArr "json list"
  | JObj "(jsstring \<times> json) list"

text \<open>
  A JavaScript value read out of parsed JSON is a JSON value or \<open>undefined\<close>
  (\<open>None\<close>).
\<close>

type_synonym jsval = "json option"

datatype exn =
    TypeError
  | SyntaxError
  | FetchRejected
  | Error jsstring

text \<open>
  Truthiness (\<open>ToBoolean\<close>): \<open>undefined\<close>, \<open>null\<close>, \<open>false\<close>, \<open>0\<close> and the
  empty string are falsy, everything else is truthy (\<open>NaN\<close> is not a value of parsed
  JSON).
\<close>

fun truthy :: "jsval \<Rightarrow> bool" where
  "truthy None = False"
| "truthy (Some JNull) = False"
| "truthy (Some (JBool b)) = b"
| "truthy (Some (JNum x)) = (x \<noteq> 0)"
| "truthy (Some (JInfinity s)) = True"
| "truthy (Some (JStr s)) = (s \<noteq> [])"
| "truthy (Some (JArr xs)) = True"
| "truthy (Some (JObj kvs)) = True"

text \<open>
  The property read \<open>v.k\<close> on a parsed JSON value \<open>v\<close>, for the keys the source
  reads from request and response bodies (\<open>name\<close>, \<open>price\<close>, \<open>category\<close>,
  \<open>description\<close>, \<open>inStock\<close>, \<open>products\<close>, \<open>id\<close>): none of them is inherited
  from a prototype, so the read gives the own property of an object (the last
  binding of a repeated key, as \<open>JSON.parse\<close> keeps it), \<open>undefined\<close> on any other
  non-null value, and throws a \<open>TypeError\<close> on \<open>null\<close>.
\<close>

fun get_prop :: "json \<Rightarrow> jsstring \<Rightarrow> exn + jsval" where
  "get_prop JNull k = Inl TypeError"
| "get_prop (JObj kvs) k = Inr (map_of (rev kvs) k)"
| "get_prop (JBool b) k = Inr None"
| "get_prop (JNum x) k = Inr None"
| "get_prop (JInfinity s) k = Inr None"
| "get_prop (JStr s) k = Inr None"
| "get_prop (JArr xs) k = Inr None"

text \<open>The read \<open>v.length\<close>: arrays and strings have it, an object may own one.\<close>

fun get_length :: "json \<Rightarrow> exn + jsval" where
  "get_length JNull = Inl TypeError"
| "get_length (JArr xs) = Inr (Some (JNum (real (length xs))))"
| "get_length (JStr s) = Inr (Some (JNum (real (length s))))"
| "get_length (JObj kvs) = Inr (map_of (rev kvs) (js ''length''))"
| "get_length (JBool b) = Inr None"
| "get_length (JNum x) = Inr None"
| "get_length (JInfinity s) = Inr None"

section \<open>The server-side data fetch of the two pages\<close>

text \<open>
  The options the pages pass to \<open>fetch\<close>, and what the call can come to: the promise
  rejects, or it resolves to a response with its \<open>ok\<close> flag and the outcome of
  \<open>res.json()\<close> (\<open>None\<close> when the body is not JSON). The network is a parameter
  of the model: a function from the URL and the options to the outcome. The outcomes
  are those of a fetch that settles; a promise that stays pending has none.
\<close>

datatype cache_mode = NoStore

record next_opts =
  revalidate :: nat
  tags :: "jsstring list"

record fetch_init =
  cache :: "cache_mode option"
  next_cfg :: "next_opts option"

datatype fetch_result =
    Rejected
  | Responded bool "json option"

type_synonym fetcher = "jsstring \<Rightarrow> fetch_init \<Rightarrow> fetch_result"

definition api_products_url :: jsstring where
  "api_products_url = js ''http://localhost:3000/api/products''"

text \<open>
  The body of the \<open>try\<close> block shared by both \<open>getProducts\<close> helpers, after the
  \<open>fetch\<close>: a rejection and a body that does not parse throw, a response that is
  not ok throws \<open>Error('Failed to fetch products')\<close>, and otherwise the result is
  \<open>data.products || []\<close>.
\<close>

definition products_of_response :: "fetch_result \<Rightarrow> exn + json" where
  "products_of_response r =
     (case r of
        Rejected \<Rightarrow> Inl FetchRejected
      | Responded ok body \<Rightarrow>
          if \<not> ok then Inl (Error (js ''Failed to fetch products''))
          else (case body of
                  None \<Rightarrow> Inl SyntaxError
                | Some data \<Rightarrow>
                    (case get_prop data (js ''products'') of
                       Inl e \<Rightarrow> Inl e
                     | Inr None \<Rightarrow> Inr (JArr [])
                     | Inr (Some products) \<Rightarrow>
                         Inr (if truthy (Some products) then products else JArr []))))"

text \<open>
  \<open>getProducts\<close> of \<open>ssr-standard/page.tsx\<close> (\<open>cache: 'no-store'\<close>) and of
  \<open>rsc-optimal/page.tsx\<close> (\<open>next: { revalidate: 60, tags: ['products'] }\<close>).
  The \<open>catch\<close> clause logs the error and returns the empty array. The result type
  keeps the exception channel of an async function, so that "never throws" is a
  statement about the model.
\<close>

definition ssr_init :: fetch_init where
  "ssr_init = \<lparr>cache = Some NoStore, next_cfg = None\<rparr>"

definition rsc_init :: fetch_init where
  "rsc_init = \<lparr>cache = None, next_cfg = Some \<lparr>revalidate = 60, tags = [js ''products'']\<rparr>\<rparr>"

definition getProducts_ssr :: "fetcher \<Rightarrow> exn + json" where
  "getProducts_ssr fetch =
     (case products_of_response (fetch api_products_url ssr_init) of
        Inl error \<Rightarrow> Inr (JArr [])
      | Inr products \<Rightarrow> Inr products)"

definition getProducts_rsc :: "fetcher \<Rightarrow> exn + json" where
  "getProducts_rsc fetch =
     (case products_of_response (fetch api_products_url rsc_init) of
        Inl error \<Rightarrow> Inr (JArr [])
      | Inr products \<Rightarrow> Inr products)"

text \<open>
  What the product section of a page shows: the empty-state message when
  \<open>products.length === 0\<close>, and otherwise one card per element of
  \<open>products.map(...)\<close>, each card reading \<open>id\<close>, \<open>name\<close>, \<open>category\<close> and
  \<open>price\<close> of its element. Only an array has \<open>map\<close>; on any other value the
  call throws. How React prints the values of a card is not part of the model.
\<close>

record card =
  card_key :: jsval
  card_name :: jsval
  card_category :: jsval
  card_price :: jsval

datatype view = EmptyState | ProductGrid "card list"

definition product_card :: "json \<Rightarrow> exn + card" where
  "product_card product =
     (case get_prop product (js ''id'') of
        Inl e \<Rightarrow> Inl e
      | Inr i \<Rightarrow>
     (case get_prop product (js ''name'') of
        Inl e \<Rightarrow> Inl e
      | Inr n \<Rightarrow>
     (case get_prop product (js ''category'') of
        Inl e \<Rightarrow> Inl e
      | Inr c \<Rightarrow>
     (case get_prop product (js ''price'') of
        Inl e \<Rightarrow> Inl e
      | Inr p \<Rightarrow>
          Inr \<lparr>card_key = i, card_name = n, card_category = c, card_price = p\<rparr>))))"

fun map_cards :: "json list \<Rightarrow> exn + card list" where
  "map_cards [] = Inr []"
| "map_cards (x # xs) =
     (case product_card x of
        Inl e \<Rightarrow> Inl e
      | Inr c \<Rightarrow> (case map_cards xs of Inl e \<Rightarrow> Inl e | Inr cs \<Rightarrow> Inr (c # cs)))"

definition render_products :: "json \<Rightarrow> exn + view" where
  "render_products products =
     (case get_length products of
        Inl e \<Rightarrow> Inl e
      | Inr len \<Rightarrow>
          if len = Some (JNum 0) then Inr EmptyState
          else (case products of
                  JArr xs \<Rightarrow>
                    (case map_cards xs of Inl e \<Rightarrow> Inl e | Inr cs \<Rightarrow> Inr (ProductGrid cs))
                | _ \<Rightarrow> Inl TypeError))"

text \<open>
  \<open>SSRStandardPage\<close> awaits \<open>getProducts\<close> and renders the section; \<open>ProductList\<close>
  of the RSC page does the same inside its \<open>Suspense\<close> boundary.
\<close>

definition SSRStandardPage :: "fetcher \<Rightarrow> exn + view" where
  "SSRStandardPage fetch =
     (case getProducts_ssr fetch of
        Inl e \<Rightarrow> Inl e
      | Inr products \<Rightarrow> render_products products)"

definition ProductList :: "fetcher \<Rightarrow> exn + view" where
  "ProductList fetch =
     (case getProducts_rsc fetch of
        Inl e \<Rightarrow> Inl e
      | Inr products \<Rightarrow> render_products products)"

text \<open>
  The failures the specification lists for the fetch: the promise rejects, the status
  is not ok, or the JSON body has no \<open>products\<close> field.
\<close>

fun lacks_products :: "json \<Rightarrow> bool" where
  "lacks_products (JObj kvs) = (map_of (rev kvs) (js ''products'') = None)"
| "lacks_products v = True"

fun fetch_failed :: "fetch_result \<Rightarrow> bool" where
  "fetch_failed Rejected = True"
| "fetch_failed (Responded ok None) = (\<not> ok)"
| "fetch_failed (Responded ok (Some data)) = (\<not> ok \<or> lacks_products data)"

section \<open>The product API: \<open>GET /api/products\<close>\<close>

record product =
  p_id :: jsstring
  p_name :: jsstring
  p_price :: real
  p_category :: jsstring
  p_description :: jsstring
  p_inStock :: bool

text \<open>
  The mock data of the route, in the order of the source. The non-ASCII parts of the
  names and descriptions are the UTF-16 code units of the source literals.
\<close>

definition mockProducts :: "product list" where
  "mockProducts =
  [
   \<lparr>p_id = js ''1'',
     p_name = [12527, 12452, 12516, 12524, 12473, 12452, 12516, 12507, 12531] @ js '' Pro'',
     p_price = 2999 / 100,
     p_category = js ''Electronics'',
     p_description = [39640, 38899, 36074, 12394, 12527, 12452, 12516, 12524, 12473, 12452, 12516, 12507, 12531],
     p_inStock = True\<rparr>,
   \<lparr>p_id = js ''2'',
     p_name = [12473, 12510, 12540, 12488, 12454, 12457, 12483, 12481] @ js '' X1'',
     p_price = 19999 / 100,
     p_category = js ''Electronics'',
     p_description = [12501, 12451, 12483, 12488, 12493, 12473, 12488, 12521, 12483, 12461, 12531, 12464, 27231, 33021, 20184, 12365],
     p_inStock = True\<rparr>,
   \<lparr>p_id = js ''3'',
     p_name = [12494, 12540, 12488, 12497, 12477, 12467, 12531] @ js '' Ultra'',
     p_price = 129999 / 100,
     p_category = js ''Electronics'',
     p_description = [39640, 24615, 33021, 12494, 12540, 12488] @ js ''PC'',
     p_inStock = True\<rparr>,
   \<lparr>p_id = js ''4'',
     p_name = js ''Bluetooth'' @ [12473, 12500, 12540, 12459, 12540],
     p_price = 7999 / 100,
     p_category = js ''Electronics'',
     p_description = [12509, 12540, 12479, 12502, 12523, 12473, 12500, 12540, 12459, 12540],
     p_inStock = True\<rparr>,
   \<lparr>p_id = js ''5'',
     p_name = [12527, 12452, 12516, 12524, 12473, 12510, 12454, 12473],
     p_price = 2499 / 100,
     p_category = js ''Accessories'',
     p_description = [12456, 12523, 12468, 12494, 12511, 12483, 12463, 12487, 12470, 12452, 12531],
     p_inStock = True\<rparr>,
   \<lparr>p_id = js ''6'',
     p_name = js ''USB'' @ [12513, 12514, 12522] @ js '' 128GB'',
     p_price = 1999 / 100,
     p_category = js ''Accessories'',
     p_description = [39640, 36895, 12487, 12540, 12479, 36578, 36865],
     p_inStock = True\<rparr>,
   \<lparr>p_id = js ''7'',
     p_name = [12466, 12540, 12511, 12531, 12464, 12461, 12540, 12508, 12540, 12489],
     p_price = 8999 / 100,
     p_category = js ''Gaming'',
     p_description = [12513, 12459, 12491, 12459, 12523, 12461, 12540, 12508, 12540, 12489],
     p_inStock = True\<rparr>,
   \<lparr>p_id = js ''8'',
     p_name = [12514, 12491, 12479, 12540] @ js '' 27'' @ [12452, 12531, 12481],
     p_price = 34999 / 100,
     p_category = js ''Electronics'',
     p_description = js ''4K'' @ [35299, 20687, 24230, 23550, 24540],
     p_inStock = True\<rparr>
  ]"

text \<open>
  \<open>String.prototype.toLowerCase\<close> on the letters of Basic Latin and Latin-1. Code units
  above U+00FF are left as they are; the method itself also maps the capitals of other
  scripts, and no statement below depends on which letters are mapped, since each
  compares the two sides under this same function.
\<close>

definition lower_unit :: "nat \<Rightarrow> nat" where
  "lower_unit u =
     (if 65 \<le> u \<and> u \<le> 90 then u + 32
      else if 192 \<le> u \<and> u \<le> 222 \<and> u \<noteq> 215 then u + 32
      else u)"

definition toLowerCase :: "jsstring \<Rightarrow> jsstring" where
  "toLowerCase s = map lower_unit s"

text \<open>
  \<open>Array.prototype.slice(start, end)\<close> on integer arguments: a negative argument
  counts from the end of the array, both bounds are clamped to the array, and an end
  before the start gives the empty array.
\<close>

definition slice :: "'a list \<Rightarrow> int \<Rightarrow> int \<Rightarrow> 'a list" where
  "slice xs start stop =
     (let len = int (length xs);
          k = (if start < 0 then max (len + start) 0 else min start len);
          final = (if stop < 0 then max (len + stop) 0 else min stop len)
      in take (nat (final - k)) (drop (nat k) xs))"

text \<open>
  The numbers of the route are IEEE doubles. \<open>nearest_double n\<close> is the double
  nearest to the integer \<open>n\<close>, ties going to the even significand: an integer of
  at most 53 bits is a double itself, and a longer one keeps its 53 leading bits,
  rounded. The result is again an integer. Overflow to infinity, which starts near
  \<open>1.8e308\<close>, is not modelled.
\<close>

definition nearest_double :: "int \<Rightarrow> int" where
  "nearest_double n =
     (let m = \<bar>n\<bar>; e = nat (bitlen m - 53)
      in if e = 0 then n
         else (let q = m div 2 ^ e; r = m mod 2 ^ e; h = 2 ^ (e - 1);
                   q' = (if h < r \<or> (r = h \<and> odd q) then q + 1 else q)
               in sgn n * (q' * 2 ^ e)))"

text \<open>
  \<open>parseInt\<close> on a parameter written as the decimal integer \<open>n\<close>: the integer,
  rounded to a double. ECMAScript fixes this value for literals of up to 20 digits and
  leaves longer ones to the implementation; those are outside the model.
\<close>

definition parseInt :: "int \<Rightarrow> int" where
  "parseInt n = nearest_double n"

text \<open>The sum \<open>a + b\<close> of two integer-valued doubles: the exact sum, rounded.\<close>

definition double_add :: "int \<Rightarrow> int \<Rightarrow> int" where
  "double_add a b = nearest_double (a + b)"

text \<open>
  The search parameters of a request. \<open>q_category\<close> is \<open>searchParams.get('category')\<close>
  (\<open>None\<close> for \<open>null\<close>). \<open>q_limit\<close> and \<open>q_offset\<close> carry the integer that the
  parameter writes in decimal; \<open>None\<close> is a parameter that is absent or empty, for
  which \<open>|| '20'\<close> and \<open>|| '0'\<close> supply the default. Parameters that are not
  integers are outside this model.
\<close>

record query =
  q_category :: "jsstring option"
  q_limit :: "int option"
  q_offset :: "int option"

record products_response =
  res_status :: nat
  res_products :: "product list"
  res_total :: nat
  res_limit :: int
  res_offset :: int
  res_hasMore :: bool
  res_cache_control :: jsstring

text \<open>
  \<open>GET\<close> of the route. The 300 ms delay before the answer has no part in the value
  computed.
\<close>

definition GET :: "query \<Rightarrow> products_response" where
  "GET request =
     (let category = q_category request;
          limit = parseInt (case q_limit request of None \<Rightarrow> 20 | Some n \<Rightarrow> n);
          offset = parseInt (case q_offset request of None \<Rightarrow> 0 | Some n \<Rightarrow> n);
          filteredProducts =
            (case category of
               None \<Rightarrow> mockProducts
             | Some c \<Rightarrow>
                 if c \<noteq> [] \<and> c \<noteq> js ''all''
                 then filter (\<lambda>p. toLowerCase (p_category p) = toLowerCase c) mockProducts
                 else mockProducts);
          paginatedProducts = slice filteredProducts offset (double_add offset limit)
      in \<lparr>res_status = 200,
          res_products = paginatedProducts,
          res_total = length filteredProducts,
          res_limit = limit,
          res_offset = offset,
          res_hasMore = (double_add offset limit < int (length filteredProducts)),
          res_cache_control = js ''public, s-maxage=60, stale-while-revalidate=300''\<rparr>)"

text \<open>
  The selection of products as the specification words it: the mock list filtered by
  category, compared case-insensitively, where an absent category or the value
  \<open>all\<close> means no filtering.
\<close>

definition claimed_selection :: "jsstring option \<Rightarrow> product list" where
  "claimed_selection category =
     (case category of
        None \<Rightarrow> mockProducts
      | Some c \<Rightarrow>
          if c = js ''all'' then mockProducts
          else filter (\<lambda>p. toLowerCase (p_category p) = toLowerCase c) mockProducts)"

text \<open>
  The same selection with the empty category added to the values that mean no
  filtering.
\<close>

definition selection :: "jsstring option \<Rightarrow> product list" where
  "selection category =
     (case category of
        None \<Rightarrow> mockProducts
      | Some c \<Rightarrow>
          if c = [] \<or> c = js ''all'' then mockProducts
          else filter (\<lambda>p. toLowerCase (p_category p) = toLowerCase c) mockProducts)"

section \<open>The product API: \<open>POST /api/products\<close>\<close>

text \<open>
  The two readings of the clock in \<open>POST\<close>: \<open>Date.now().toString()\<close> and
  \<open>new Date().toISOString()\<close>.
\<close>

record clock =
  date_now :: jsstring
  date_iso :: jsstring

text \<open>
  \<open>NextResponse.json(value, { status })\<close> sends the text \<open>JSON.stringify(value)\<close>.
  \<open>stringify v\<close> is the JSON value which that text denotes: \<open>v\<close> with every
  infinity replaced by \<open>null\<close>. A property whose value is \<open>undefined\<close> is left out
  of the text; \<open>defined_props\<close> keeps the others.
\<close>

fun stringify :: "json \<Rightarrow> json" where
  "stringify JNull = JNull"
| "stringify (JBool b) = JBool b"
| "stringify (JNum x) = JNum x"
| "stringify (JInfinity s) = JNull"
| "stringify (JStr s) = JStr s"
| "stringify (JArr xs) = JArr (map stringify xs)"
| "stringify (JObj kvs) = JObj (map (\<lambda>kv. (fst kv, stringify (snd kv))) kvs)"

fun defined_props :: "(jsstring \<times> jsval) list \<Rightarrow> (jsstring \<times> json) list" where
  "defined_props [] = []"
| "defined_props ((k, None) # ps) = defined_props ps"
| "defined_props ((k, Some v) # ps) = (k, v) # defined_props ps"

text \<open>A response of the route: the status and the JSON value of the body sent.\<close>

record post_response =
  post_status :: nat
  post_body :: json

definition json_response :: "(jsstring \<times> jsval) list \<Rightarrow> nat \<Rightarrow> post_response" where
  "json_response props status =
     \<lparr>post_status = status, post_body = stringify (JObj (defined_props props))\<rparr>"

definition missing_fields_response :: post_response where
  "missing_fields_response =
     json_response [(js ''error'', Some (JStr (js ''Missing required fields: name, price'')))] 400"

definition invalid_body_response :: post_response where
  "invalid_body_response =
     json_response [(js ''error'', Some (JStr (js ''Invalid request body'')))] 400"

text \<open>\<open>a || b\<close> and \<open>a ?? b\<close> on values.\<close>

definition or_else :: "jsval \<Rightarrow> jsval \<Rightarrow> jsval" where
  "or_else a b = (if truthy a then a else b)"

fun nullish_else :: "jsval \<Rightarrow> jsval \<Rightarrow> jsval" where
  "nullish_else None b = b"
| "nullish_else (Some JNull) b = b"
| "nullish_else a b = a"

text \<open>
  The \<open>try\<close> block of \<open>POST\<close>. The request is the outcome of \<open>request.json()\<close>:
  \<open>None\<close> when the promise rejects because the body is not JSON. In
  \<open>!body.name || !body.price\<close> the second read happens only when the first value
  is truthy. The list handed to \<open>json_response\<close> in the last step is the object
  \<open>newProduct\<close>.
\<close>

definition POST_try :: "clock \<Rightarrow> json option \<Rightarrow> exn + post_response" where
  "POST_try clk request =
     (case request of
        None \<Rightarrow> Inl SyntaxError
      | Some body \<Rightarrow>
     (case get_prop body (js ''name'') of
        Inl e \<Rightarrow> Inl e
      | Inr name \<Rightarrow>
          if \<not> truthy name then Inr missing_fields_response
          else
     (case get_prop body (js ''price'') of
        Inl e \<Rightarrow> Inl e
      | Inr price \<Rightarrow>
          if \<not> truthy price then Inr missing_fields_response
          else
     (case get_prop body (js ''category'') of
        Inl e \<Rightarrow> Inl e
      | Inr category \<Rightarrow>
     (case get_prop body (js ''description'') of
        Inl e \<Rightarrow> Inl e
      | Inr description \<Rightarrow>
     (case get_prop body (js ''inStock'') of
        Inl e \<Rightarrow> Inl e
      | Inr inStock \<Rightarrow>
          Inr (json_response
                 [(js ''id'', Some (JStr (date_now clk))),
                  (js ''name'', name),
                  (js ''price'', price),
                  (js ''category'', or_else category (Some (JStr (js ''Uncategorized'')))),
                  (js ''description'', or_else description (Some (JStr []))),
                  (js ''inStock'', nullish_else inStock (Some (JBool True))),
                  (js ''createdAt'', Some (JStr (date_iso clk)))]
                 201)))))))"

text \<open>\<open>POST\<close>: any exception of the \<open>try\<close> block is answered with status 400.\<close>

definition POST :: "clock \<Rightarrow> json option \<Rightarrow> post_response" where
  "POST clk request =
     (case POST_try clk request of
        Inl error \<Rightarrow> invalid_body_response
      | Inr response \<Rightarrow> response)"

text \<open>
  The field \<open>k\<close> of a parsed body as the specification speaks of it: the value the
  body holds under \<open>k\<close>, and \<open>undefined\<close> when it holds none.
\<close>

fun field :: "json \<Rightarrow> jsstring \<Rightarrow> jsval" where
  "field (JObj kvs) k = map_of (rev kvs) k"
| "field v k = None"

text \<open>
  The submitted value when it is truthy and the default otherwise; the submitted value
  unless it is absent or \<open>null\<close>, and the default then.
\<close>

fun submitted_or :: "jsval \<Rightarrow> json \<Rightarrow> json" where
  "submitted_or None d = d"
| "submitted_or (Some v) d = (if truthy (Some v) then v else d)"

fun present_or :: "jsval \<Rightarrow> json \<Rightarrow> json" where
  "present_or None d = d"
| "present_or (Some JNull) d = d"
| "present_or (Some v) d = v"

text \<open>A value that holds no infinity.\<close>

fun finite_json :: "json \<Rightarrow> bool" where
  "finite_json JNull = True"
| "finite_json (JBool b) = True"
| "finite_json (JNum x) = True"
| "finite_json (JInfinity s) = False"
| "finite_json (JStr s) = True"
| "finite_json (JArr xs) = list_all finite_json xs"
| "finite_json (JObj kvs) = list_all (\<lambda>kv. finite_json (snd kv)) kvs"

section \<open>Example requests and responses\<close>

text \<open>Three outcomes of the network that the specification counts as failures.\<close>

definition offline :: fetcher where
  "offline url init = Rejected"

definition server_error :: fetcher where
  "server_error url init = Responded False None"

definition legacy_api :: fetcher where
  "legacy_api url init =
     Responded True (Some (JObj [(js ''data'', JArr []), (js ''total'', JNum 0)]))"

text \<open>A page of the electronics category, asked for in capitals.\<close>

definition electronics_page :: query where
  "electronics_page =
     \<lparr>q_category = Some (js ''ELECTRONICS''), q_limit = Some 2, q_offset = Some 1\<rparr>"

text \<open>The request \<open>/api/products?category=&limit=20&offset=0\<close>.\<close>

definition empty_category_page :: query where
  "empty_category_page = \<lparr>q_category = Some [], q_limit = Some 20, q_offset = Some 0\<rparr>"

text \<open>
  The request \<open>/api/products?limit=9007199254740994&offset=-9007199254740993\<close>,
  whose offset is not a double.
\<close>

definition rounded_offset_page :: query where
  "rounded_offset_page =
     \<lparr>q_category = None, q_limit = Some 9007199254740994,
      q_offset = Some (- 9007199254740993)\<rparr>"

definition clock_example :: clock where
  "clock_example =
     \<lparr>date_now = js ''1700000000000'', date_iso = js ''2023-11-14T22:13:20.000Z''\<rparr>"

definition desk :: json where
  "desk =
     JObj [(js ''name'', JStr (js ''Desk'')), (js ''price'', JNum 120),
           (js ''inStock'', JBool False)]"

definition free_desk :: json where
  "free_desk = JObj [(js ''name'', JStr (js ''Desk'')), (js ''price'', JNum 0)]"

definition unnamed_desk :: json where
  "unnamed_desk = JObj [(js ''name'', JStr []), (js ''price'', JNum 120)]"

text \<open>
  A desk submitted with an empty category, the description \<open>false\<close>, the stock
  \<open>null\<close> and a colour; and a desk whose price was written \<open>1e400\<close>.
\<close>

definition blank_desk :: json where
  "blank_desk =
     JObj [(js ''name'', JStr (js ''Desk'')), (js ''price'', JNum 120),
           (js ''category'', JStr []), (js ''description'', JBool False),
           (js ''inStock'', JNull), (js ''color'', JStr (js ''red''))]"

definition costly_desk :: json where
  "costly_desk = JObj [(js ''name'', JStr (js ''Desk'')), (js ''price'', JInfinity True)]"

section \<open>The data fetch never throws\<close>

lemma products_of_response_failed:
  assumes "fetch_failed r"
  shows "products_of_response r = Inr (JArr []) \<or> (\<exists>e. products_of_response r = Inl e)"
proof (cases r)
  case Rejected
  then show ?thesis by (simp add: products_of_response_def)
next
  case (Responded ok body)
  show ?thesis
  proof (cases body)
    case None
    with Responded assms show ?thesis by (simp add: products_of_response_def)
  next
    case (Some data)
    with Responded assms show ?thesis
      by (cases data) (auto simp: products_of_response_def)
  qed
qed

lemma render_products_empty: "render_products (JArr []) = Inr EmptyState"
  by (simp add: render_products_def)

text \<open>
  Claim C10. Both \<open>getProducts\<close> helpers return a value for every outcome of the
  fetch and never throw. When the fetch rejects, answers with a status that is not ok,
  or answers with a JSON body that has no \<open>products\<close> field, they return the empty
  array, and the page (\<open>SSRStandardPage\<close>, and \<open>ProductList\<close> of the RSC page)
  renders its empty-state message instead of propagating the error.
\<close>

theorem getProducts_never_throw:
  "(\<exists>v. getProducts_ssr fetch = Inr v) \<and>
   (\<exists>v. getProducts_rsc fetch = Inr v) \<and>
   (fetch_failed (fetch api_products_url ssr_init) \<longrightarrow>
      getProducts_ssr fetch = Inr (JArr []) \<and> SSRStandardPage fetch = Inr EmptyState) \<and>
   (fetch_failed (fetch api_products_url rsc_init) \<longrightarrow>
      getProducts_rsc fetch = Inr (JArr []) \<and> ProductList fetch = Inr EmptyState)"
proof -
  have t1: "\<exists>v. getProducts_ssr fetch = Inr v"
    by (simp add: getProducts_ssr_def split: sum.splits)
  have t2: "\<exists>v. getProducts_rsc fetch = Inr v"
    by (simp add: getProducts_rsc_def split: sum.splits)
  have f1: "getProducts_ssr fetch = Inr (JArr [])"
    if "fetch_failed (fetch api_products_url ssr_init)"
    using products_of_response_failed [OF that] by (auto simp: getProducts_ssr_def)
  have f2: "getProducts_rsc fetch = Inr (JArr [])"
    if "fetch_failed (fetch api_products_url rsc_init)"
    using products_of_response_failed [OF that] by (auto simp: getProducts_rsc_def)
  show ?thesis
    using t1 t2 f1 f2
    by (simp add: SSRStandardPage_def ProductList_def render_products_empty)
qed

text \<open>
  The three failures at work: no network, a server error, and an answer that carries
  its list under \<open>data\<close> instead of \<open>products\<close>.
\<close>

theorem getProducts_never_throw_witness:
  "fetch_failed (offline api_products_url ssr_init) \<and>
   fetch_failed (offline api_products_url rsc_init) \<and>
   getProducts_ssr offline = Inr (JArr []) \<and> SSRStandardPage offline = Inr EmptyState \<and>
   getProducts_rsc offline = Inr (JArr []) \<and> ProductList offline = Inr EmptyState \<and>
   fetch_failed (server_error api_products_url ssr_init) \<and>
   fetch_failed (server_error api_products_url rsc_init) \<and>
   getProducts_ssr server_error = Inr (JArr []) \<and>
   SSRStandardPage server_error = Inr EmptyState \<and>
   getProducts_rsc server_error = Inr (JArr []) \<and>
   ProductList server_error = Inr EmptyState \<and>
   fetch_failed (legacy_api api_products_url ssr_init) \<and>
   fetch_failed (legacy_api api_products_url rsc_init) \<and>
   getProducts_ssr legacy_api = Inr (JArr []) \<and> SSRStandardPage legacy_api = Inr EmptyState \<and>
   getProducts_rsc legacy_api = Inr (JArr []) \<and> ProductList legacy_api = Inr EmptyState"
proof -
  have h1: "fetch_failed (offline url init)" for url init
    by (simp add: offline_def)
  have h2: "fetch_failed (server_error url init)" for url init
    by (simp add: server_error_def)
  have h3: "fetch_failed (legacy_api url init)" for url init
    by (simp add: legacy_api_def js_def)
  show ?thesis
    using getProducts_never_throw [of offline] getProducts_never_throw [of server_error]
      getProducts_never_throw [of legacy_api] h1 h2 h3
    by simp
qed

section \<open>The product listing\<close>

subsection \<open>Rounding to doubles\<close>

lemma bitlen_le_53: "\<bar>n\<bar> < 2 ^ 53 \<Longrightarrow> bitlen \<bar>n\<bar> \<le> 53"
  by (simp add: bitlen_le_iff_power)

lemma nearest_double_exact:
  assumes "\<bar>n\<bar> \<le> 2 ^ 53"
  shows "nearest_double n = n"
proof (cases "\<bar>n\<bar> < 2 ^ 53")
  case True
  then have "nat (bitlen \<bar>n\<bar> - 53) = 0"
    using bitlen_le_53 [OF True] by simp
  then show ?thesis by (simp add: nearest_double_def Let_def)
next
  case False
  with assms have m: "\<bar>n\<bar> = 2 ^ 53" by simp
  have b: "bitlen (2 ^ 53 :: int) = 54"
    by code_simp
  have "sgn n * \<bar>n\<bar> = n" by (simp add: sgn_mult_abs)
  then show ?thesis
    unfolding nearest_double_def Let_def m b by simp
qed

lemma nearest_double_large:
  assumes "2 ^ 53 < \<bar>n\<bar>"
  shows "2 ^ 53 \<le> \<bar>nearest_double n\<bar> \<and> sgn (nearest_double n) = sgn n"
proof -
  let ?m = "\<bar>n\<bar>"
  let ?b = "bitlen ?m"
  have pos: "0 < ?m" using assms by (smt (verit) zero_less_power)
  from bitlen_bounds [OF pos] have lo: "2 ^ nat (?b - 1) \<le> ?m" and hi: "?m < 2 ^ nat ?b"
    by blast+
  have b54: "54 \<le> ?b"
  proof (rule ccontr)
    assume "\<not> 54 \<le> ?b"
    then have "nat ?b \<le> 53" by simp
    then have "(2::int) ^ nat ?b \<le> 2 ^ 53" by (rule power_increasing) simp
    with hi assms show False by simp
  qed
  define e where "e = nat (?b - 53)"
  have e: "0 < e" "nat (?b - 1) = 52 + e" using b54 by (simp_all add: e_def)
  define q where "q = ?m div 2 ^ e"
  define r where "r = ?m mod 2 ^ e"
  define q' where "q' = (if 2 ^ (e - 1) < r \<or> (r = 2 ^ (e - 1) \<and> odd q) then q + 1 else q)"
  have "2 ^ 52 * 2 ^ e \<le> ?m" using lo e by (simp add: power_add)
  then have "(2 ^ 52 * 2 ^ e) div 2 ^ e \<le> ?m div 2 ^ e"
    by (rule zdiv_mono1) simp
  then have q52: "2 ^ 52 \<le> q" by (simp add: q_def)
  then have q'52: "2 ^ 52 \<le> q'" by (simp add: q'_def)
  have nd: "nearest_double n = sgn n * (q' * 2 ^ e)"
    using e(1) by (simp add: nearest_double_def Let_def e_def q'_def q_def r_def)
  have "(2::int) ^ 53 = 2 ^ 52 * 2 ^ 1" by simp
  also have "\<dots> \<le> q' * 2 ^ e"
    using q'52 e(1) by (intro mult_mono power_increasing) simp_all
  finally have big: "(2::int) ^ 53 \<le> q' * 2 ^ e" .
  then have qpos: "0 < q' * 2 ^ e" by (smt (verit) zero_less_power)
  have n0: "n \<noteq> 0" using pos by simp
  have q'pos: "0 < q'" using q'52 by (smt (verit) zero_less_power)
  have "\<bar>nearest_double n\<bar> = q' * 2 ^ e"
    using n0 q'pos by (simp add: nd abs_mult abs_sgn_eq)
  moreover have "sgn (nearest_double n) = sgn n"
    using n0 q'pos by (simp add: nd sgn_mult)
  ultimately show ?thesis using big by simp
qed

subsection \<open>Slices\<close>

lemma slice_stop_beyond:
  assumes "int (length xs) \<le> b"
  shows "slice xs a b = slice xs a (int (length xs))"
proof -
  let ?len = "int (length xs)"
  have "(if b < 0 then max (?len + b) 0 else min b ?len) = ?len"
    using assms by (auto simp: min_def max_def)
  moreover have "(if ?len < 0 then max (?len + ?len) 0 else min ?len ?len) = ?len"
    by simp
  ultimately show ?thesis
    unfolding slice_def Let_def by (simp only:)
qed

lemma slice_stop_below:
  assumes "b \<le> - int (length xs)"
  shows "slice xs a b = []"
proof -
  let ?len = "int (length xs)"
  let ?k = "if a < 0 then max (?len + a) 0 else min a ?len"
  have f: "(if b < 0 then max (?len + b) 0 else min b ?len) = 0"
    using assms by (auto simp: min_def max_def)
  have k: "0 \<le> ?k" by (auto simp: min_def max_def)
  have "slice xs a b = take (nat (0 - ?k)) (drop (nat ?k) xs)"
    unfolding slice_def Let_def by (simp only: f)
  also have "\<dots> = []" using k by simp
  finally show ?thesis .
qed

lemma nearest_double_harmless:
  assumes "int (length xs) \<le> 2 ^ 53"
  shows "slice xs a (nearest_double s) = slice xs a s \<and>
         (nearest_double s < int (length xs)) = (s < int (length xs))"
proof (cases "\<bar>s\<bar> \<le> 2 ^ 53")
  case True
  then show ?thesis by (simp add: nearest_double_exact)
next
  case False
  then have big: "2 ^ 53 < \<bar>s\<bar>" by simp
  note nd = nearest_double_large [OF big]
  show ?thesis
  proof (cases "0 < s")
    case True
    with nd have "0 < nearest_double s" by (simp add: sgn_if split: if_splits)
    with nd have r: "int (length xs) \<le> nearest_double s" using assms by simp
    from True big assms have s: "int (length xs) \<le> s" by simp
    show ?thesis
      using r s slice_stop_beyond [OF r, of a] slice_stop_beyond [OF s, of a] by simp
  next
    case False
    with big have neg: "s < - (2 ^ 53)" by (simp add: abs_if split: if_splits)
    with nd have r0: "nearest_double s < 0" by (simp add: sgn_if split: if_splits)
    with nd have r: "nearest_double s \<le> - int (length xs)" using assms by simp
    from neg assms have s: "s \<le> - int (length xs)" by simp
    from neg have s0: "s < 0" by simp
    show ?thesis
      using r0 s0 slice_stop_below [OF r, of a] slice_stop_below [OF s, of a] by simp
  qed
qed

lemma slice_nonneg:
  "0 \<le> a \<Longrightarrow> 0 \<le> n \<Longrightarrow> slice xs a (a + n) = take (nat n) (drop (nat a) xs)"
  by (auto simp: slice_def Let_def min_def max_def)

lemma length_mockProducts: "length mockProducts = 8"
  by (simp add: mockProducts_def)

lemma length_selection: "int (length (selection c)) \<le> 2 ^ 53"
proof -
  have "length (selection c) \<le> length mockProducts"
    by (simp add: selection_def split: option.splits)
  then show ?thesis by (simp add: length_mockProducts)
qed

lemma GET_filtered:
  "GET request =
     (let limit = parseInt (case q_limit request of None \<Rightarrow> 20 | Some n \<Rightarrow> n);
          offset = parseInt (case q_offset request of None \<Rightarrow> 0 | Some n \<Rightarrow> n)
      in \<lparr>res_status = 200,
          res_products = slice (selection (q_category request)) offset (double_add offset limit),
          res_total = length (selection (q_category request)),
          res_limit = limit,
          res_offset = offset,
          res_hasMore = (double_add offset limit < int (length (selection (q_category request)))),
          res_cache_control = js ''public, s-maxage=60, stale-while-revalidate=300''\<rparr>)"
  by (cases "q_category request") (simp_all add: GET_def selection_def Let_def)

lemma selection_electronics:
  "map p_id (selection (Some (js ''ELECTRONICS''))) =
     [js ''1'', js ''2'', js ''3'', js ''4'', js ''8'']"
  by (simp add: selection_def mockProducts_def toLowerCase_def lower_unit_def js_def)

lemma parseInt_small: "parseInt 20 = 20" "parseInt 0 = 0"
  by (simp_all add: parseInt_def nearest_double_exact)

lemma parseInt_rounded:
  "parseInt 9007199254740994 = 9007199254740994"
  "parseInt (- 9007199254740993) = - 9007199254740992"
  by (simp_all add: parseInt_def) code_simp+

lemma ids_mockProducts:
  "map p_id mockProducts =
     [js ''1'', js ''2'', js ''3'', js ''4'', js ''5'', js ''6'', js ''7'', js ''8'']"
  by (simp add: mockProducts_def)

lemma map_slice: "map f (slice xs a b) = slice (map f xs) a b"
  by (simp add: slice_def Let_def take_map drop_map)

subsection \<open>The page returned\<close>

text \<open>
  Claim C8, as the specification states it, fails on two requests. When the category
  is present and empty, the route does not filter and reports all eight products,
  where filtering by the empty category selects none. When the offset is an integer
  that is not a double, \<open>parseInt\<close> rounds it (here to \<open>-9007199254740992\<close>), the sum
  with the limit is 2 instead of 1, and the route returns the products 1 and 2 where
  the slice from \<open>offset\<close> to \<open>offset + limit\<close> holds product 1 alone.
\<close>

theorem GET_claim_counterexample:
  "res_total (GET empty_category_page) = 8 \<and>
   length (claimed_selection (q_category empty_category_page)) = 0 \<and>
   res_products (GET empty_category_page)
     \<noteq> slice (claimed_selection (q_category empty_category_page)) 0 (0 + 20) \<and>
   map p_id (res_products (GET rounded_offset_page)) = [js ''1'', js ''2''] \<and>
   res_offset (GET rounded_offset_page) = - 9007199254740992 \<and>
   map p_id (slice (claimed_selection (q_category rounded_offset_page))
      (- 9007199254740993) (- 9007199254740993 + 9007199254740994)) = [js ''1''] \<and>
   res_products (GET rounded_offset_page)
     \<noteq> slice (claimed_selection (q_category rounded_offset_page))
         (- 9007199254740993) (- 9007199254740993 + 9007199254740994)"
proof -
  have a: "res_total (GET empty_category_page) = 8 \<and>
   length (claimed_selection (q_category empty_category_page)) = 0 \<and>
   res_products (GET empty_category_page)
     \<noteq> slice (claimed_selection (q_category empty_category_page)) 0 (0 + 20)"
    by (simp add: GET_def empty_category_page_def claimed_selection_def mockProducts_def
        toLowerCase_def js_def slice_def parseInt_small double_add_def nearest_double_exact)
  have d: "double_add (- 9007199254740992) 9007199254740994 = 2"
    by (simp add: double_add_def nearest_double_exact)
  have b: "map p_id (res_products (GET rounded_offset_page)) = [js ''1'', js ''2'']"
    by (simp add: GET_def rounded_offset_page_def parseInt_rounded d map_slice ids_mockProducts)
      (simp add: slice_def)
  have c: "res_offset (GET rounded_offset_page) = - 9007199254740992"
    by (simp add: GET_def rounded_offset_page_def parseInt_rounded Let_def)
  have e: "map p_id (slice (claimed_selection (q_category rounded_offset_page))
      (- 9007199254740993) (- 9007199254740993 + 9007199254740994)) = [js ''1'']"
    by (simp add: rounded_offset_page_def claimed_selection_def map_slice ids_mockProducts)
      (simp add: slice_def)
  have f: "res_products (GET rounded_offset_page)
     \<noteq> slice (claimed_selection (q_category rounded_offset_page))
         (- 9007199254740993) (- 9007199254740993 + 9007199254740994)"
  proof
    assume "res_products (GET rounded_offset_page)
       = slice (claimed_selection (q_category rounded_offset_page))
           (- 9007199254740993) (- 9007199254740993 + 9007199254740994)"
    then have "[js ''1'', js ''2''] = [js ''1'']"
      using b e by simp
    then show False by simp
  qed
  show ?thesis using a b c e f by blast
qed

text \<open>
  Claim C8, amended. For every request whose \<open>limit\<close> and \<open>offset\<close> parameters are
  integers of magnitude at most \<open>2 ^ 53\<close>, \<open>products\<close> is the mock list filtered
  by category (compared case-insensitively; an absent category, the empty category and
  the value \<open>all\<close> mean no filtering) and then sliced from \<open>offset\<close> to
  \<open>offset + limit\<close>, which for non-negative parameters is the \<open>limit\<close> elements
  after the first \<open>offset\<close>; \<open>total\<close> is the length of the whole filtered list;
  and \<open>hasMore\<close> holds exactly when \<open>offset + limit < total\<close>.
\<close>

theorem GET_page_of_selection:
  assumes "q_limit request = Some limit" and "q_offset request = Some offset"
    and "\<bar>limit\<bar> \<le> 2 ^ 53" and "\<bar>offset\<bar> \<le> 2 ^ 53"
  shows "res_products (GET request)
           = slice (selection (q_category request)) offset (offset + limit) \<and>
         res_total (GET request) = length (selection (q_category request)) \<and>
         res_hasMore (GET request) = (offset + limit < int (res_total (GET request))) \<and>
         (0 \<le> offset \<and> 0 \<le> limit \<longrightarrow>
            res_products (GET request) =
              take (nat limit) (drop (nat offset) (selection (q_category request))))"
proof -
  have l: "parseInt limit = limit" and o: "parseInt offset = offset"
    using assms by (simp_all add: parseInt_def nearest_double_exact)
  note h = nearest_double_harmless [OF length_selection, of "q_category request" offset "offset + limit"]
  show ?thesis
    using assms(1,2) h by (simp add: GET_filtered l o double_add_def slice_nonneg)
qed

text \<open>
  Two products per page from the second one on, category \<open>ELECTRONICS\<close>: the page
  holds the products 2 and 3 of the five electronics products, and more follow.
\<close>

theorem GET_page_of_selection_witness:
  "q_limit electronics_page = Some 2 \<and> q_offset electronics_page = Some 1 \<and>
   \<bar>2 :: int\<bar> \<le> 2 ^ 53 \<and> \<bar>1 :: int\<bar> \<le> 2 ^ 53 \<and>
   map p_id (res_products (GET electronics_page)) = [js ''2'', js ''3''] \<and>
   res_total (GET electronics_page) = 5 \<and>
   res_hasMore (GET electronics_page)"
proof -
  have l: "q_limit electronics_page = Some 2" and o: "q_offset electronics_page = Some 1"
    by (simp_all add: electronics_page_def)
  have bl: "\<bar>2 :: int\<bar> \<le> 2 ^ 53" and bo: "\<bar>1 :: int\<bar> \<le> 2 ^ 53"
    by simp_all
  have c: "q_category electronics_page = Some (js ''ELECTRONICS'')"
    by (simp add: electronics_page_def)
  have len: "length (selection (Some (js ''ELECTRONICS''))) = 5"
    using arg_cong [OF selection_electronics, of length] by simp
  have pg: "map p_id (take (nat 2) (drop (nat 1) (selection (Some (js ''ELECTRONICS'')))))
              = [js ''2'', js ''3'']"
    by (simp add: take_map [symmetric] drop_map [symmetric] selection_electronics
        del: take_map drop_map)
  note g = GET_page_of_selection [OF l o bl bo]
  from g have t: "res_total (GET electronics_page)
                    = length (selection (q_category electronics_page))"
    by blast
  from g have h: "res_hasMore (GET electronics_page)
                    = (1 + 2 < int (res_total (GET electronics_page)))"
    by blast
  from g have "0 \<le> (1::int) \<and> 0 \<le> (2::int) \<longrightarrow>
      res_products (GET electronics_page) =
        take (nat 2) (drop (nat 1) (selection (q_category electronics_page)))"
    by blast
  then have p: "res_products (GET electronics_page) =
        take (nat 2) (drop (nat 1) (selection (q_category electronics_page)))"
    by simp
  show ?thesis
    using l o by (simp only: p pg h t len c) simp
qed

section \<open>Creating a product\<close>

lemma stringify_finite: "finite_json v \<Longrightarrow> stringify v = v"
  by (induction v) (auto simp: list_all_iff intro!: map_idI)

lemma POST_None: "POST clk None = invalid_body_response"
  by (simp add: POST_def POST_try_def)

lemma POST_null: "POST clk (Some JNull) = invalid_body_response"
  by (simp add: POST_def POST_try_def)

lemma get_prop_field: "body \<noteq> JNull \<Longrightarrow> get_prop body k = Inr (field body k)"
  by (cases body) simp_all

lemma created_not_missing: "json_response props 201 \<noteq> missing_fields_response"
  by (simp add: missing_fields_response_def json_response_def)

lemma or_else_default: "or_else v (Some d) = Some (submitted_or v d)"
  by (cases v) (simp_all add: or_else_def)

lemma nullish_else_default: "nullish_else v (Some d) = Some (present_or v d)"
  by (cases "(v, Some d)" rule: nullish_else.cases) auto

lemma POST_parsed:
  assumes "body \<noteq> JNull"
  shows "POST clk (Some body) =
     (if \<not> truthy (field body (js ''name'')) \<or> \<not> truthy (field body (js ''price''))
      then missing_fields_response
      else json_response
             [(js ''id'', Some (JStr (date_now clk))),
              (js ''name'', field body (js ''name'')),
              (js ''price'', field body (js ''price'')),
              (js ''category'',
                 Some (submitted_or (field body (js ''category'')) (JStr (js ''Uncategorized'')))),
              (js ''description'', Some (submitted_or (field body (js ''description'')) (JStr []))),
              (js ''inStock'', Some (present_or (field body (js ''inStock'')) (JBool True))),
              (js ''createdAt'', Some (JStr (date_iso clk)))]
             201)"
  by (simp add: POST_def POST_try_def get_prop_field [OF assms] or_else_default
      nullish_else_default)

text \<open>
  Claim C9, as the specification states it, fails on three bodies. The body \<open>null\<close>
  parses as JSON, yet the answer is neither the missing-required-fields error nor
  status 201, but the invalid-request-body error, since reading \<open>body.name\<close> throws.
  The product made from \<open>blank_desk\<close> does not echo the submitted fields: the empty
  category comes back as \<open>Uncategorized\<close>, the description \<open>false\<close> as the empty
  string, the stock \<open>null\<close> as \<open>true\<close>, and the colour not at all. The price of
  \<open>costly_desk\<close>, an infinity once parsed, comes back as \<open>null\<close>.
\<close>

theorem POST_claim_counterexample:
  "POST clock_example (Some JNull) \<noteq> missing_fields_response \<and>
   post_status (POST clock_example (Some JNull)) \<noteq> 201 \<and>
   POST clock_example (Some JNull) = invalid_body_response \<and>
   post_status (POST clock_example (Some blank_desk)) = 201 \<and>
   field blank_desk (js ''category'') = Some (JStr []) \<and>
   field (post_body (POST clock_example (Some blank_desk))) (js ''category'')
     = Some (JStr (js ''Uncategorized'')) \<and>
   field blank_desk (js ''description'') = Some (JBool False) \<and>
   field (post_body (POST clock_example (Some blank_desk))) (js ''description'')
     = Some (JStr []) \<and>
   field blank_desk (js ''inStock'') = Some JNull \<and>
   field (post_body (POST clock_example (Some blank_desk))) (js ''inStock'')
     = Some (JBool True) \<and>
   field blank_desk (js ''color'') = Some (JStr (js ''red'')) \<and>
   field (post_body (POST clock_example (Some blank_desk))) (js ''color'') = None \<and>
   post_status (POST clock_example (Some costly_desk)) = 201 \<and>
   field costly_desk (js ''price'') = Some (JInfinity True) \<and>
   field (post_body (POST clock_example (Some costly_desk))) (js ''price'') = Some JNull"
  by (simp add: POST_def POST_try_def missing_fields_response_def invalid_body_response_def
      json_response_def blank_desk_def costly_desk_def or_else_def js_def)

text \<open>
  Claim C9, amended. A body that fails to parse as JSON, or that parses to \<open>null\<close>,
  is answered with status 400 and the invalid-request-body error. For every other
  parsed body, \<open>POST\<close> answers with status 400 and the missing-required-fields error
  exactly when the body's \<open>name\<close> or \<open>price\<close> is falsy (so price \<open>0\<close> and the
  empty name are rejected, present as they are), and otherwise with status 201 and a
  product of exactly seven fields: the generated \<open>id\<close>; the submitted \<open>name\<close>
  and \<open>price\<close>; the submitted \<open>category\<close> if truthy, else \<open>Uncategorized\<close>;
  the submitted \<open>description\<close> if truthy, else the empty string; the submitted
  \<open>inStock\<close> unless it is absent or \<open>null\<close>, else \<open>true\<close>; and the generated
  \<open>createdAt\<close>. A submitted value is returned as \<open>JSON.stringify\<close> writes it:
  unchanged when it holds only finite numbers, and with \<open>null\<close> in the place of a
  number beyond the range of doubles.
\<close>

theorem POST_validation:
  "POST clk None = invalid_body_response \<and>
   POST clk (Some JNull) = invalid_body_response \<and>
   (body \<noteq> JNull \<longrightarrow>
      (POST clk (Some body) = missing_fields_response) =
        (\<not> truthy (field body (js ''name'')) \<or> \<not> truthy (field body (js ''price'')))) \<and>
   (body \<noteq> JNull \<and> field body (js ''name'') = Some n \<and> truthy (Some n) \<and>
    field body (js ''price'') = Some p \<and> truthy (Some p) \<longrightarrow>
      POST clk (Some body) =
        \<lparr>post_status = 201,
         post_body = JObj
           [(js ''id'', JStr (date_now clk)),
            (js ''name'', stringify n),
            (js ''price'', stringify p),
            (js ''category'',
               stringify (submitted_or (field body (js ''category'')) (JStr (js ''Uncategorized'')))),
            (js ''description'',
               stringify (submitted_or (field body (js ''description'')) (JStr []))),
            (js ''inStock'',
               stringify (present_or (field body (js ''inStock'')) (JBool True))),
            (js ''createdAt'', JStr (date_iso clk))]\<rparr>) \<and>
   (finite_json v \<longrightarrow> stringify v = v)"
proof -
  have c3: "(POST clk (Some body) = missing_fields_response) =
        (\<not> truthy (field body (js ''name'')) \<or> \<not> truthy (field body (js ''price'')))"
    if "body \<noteq> JNull"
    by (simp add: POST_parsed [OF that] created_not_missing)
  have c4: "POST clk (Some body) =
        \<lparr>post_status = 201,
         post_body = JObj
           [(js ''id'', JStr (date_now clk)),
            (js ''name'', stringify n),
            (js ''price'', stringify p),
            (js ''category'',
               stringify (submitted_or (field body (js ''category'')) (JStr (js ''Uncategorized'')))),
            (js ''description'',
               stringify (submitted_or (field body (js ''description'')) (JStr []))),
            (js ''inStock'',
               stringify (present_or (field body (js ''inStock'')) (JBool True))),
            (js ''createdAt'', JStr (date_iso clk))]\<rparr>"
    if "body \<noteq> JNull" and "field body (js ''name'') = Some n" and "truthy (Some n)"
      and "field body (js ''price'') = Some p" and "truthy (Some p)"
    using that(2-5) by (simp add: POST_parsed [OF that(1)] json_response_def)
  show ?thesis
    using c3 c4 by (simp add: POST_None POST_null stringify_finite)
qed

text \<open>
  A desk priced 0 and a desk with the empty name are rejected; a desk priced 120 is
  created, out of stock as submitted and with the default category and description.
\<close>

theorem POST_validation_witness:
  "free_desk \<noteq> JNull \<and> POST clock_example (Some free_desk) = missing_fields_response \<and>
   unnamed_desk \<noteq> JNull \<and>
   POST clock_example (Some unnamed_desk) = missing_fields_response \<and>
   desk \<noteq> JNull \<and>
   field desk (js ''name'') = Some (JStr (js ''Desk'')) \<and> truthy (Some (JStr (js ''Desk''))) \<and>
   field desk (js ''price'') = Some (JNum 120) \<and> truthy (Some (JNum 120)) \<and>
   POST clock_example (Some desk) =
     \<lparr>post_status = 201,
      post_body = JObj
        [(js ''id'', JStr (js ''1700000000000'')),
         (js ''name'', JStr (js ''Desk'')),
         (js ''price'', JNum 120),
         (js ''category'', JStr (js ''Uncategorized'')),
         (js ''description'', JStr []),
         (js ''inStock'', JBool False),
         (js ''createdAt'', JStr (js ''2023-11-14T22:13:20.000Z''))]\<rparr> \<and>
   finite_json desk \<and> stringify desk = desk"
proof -
  have f: "\<not> truthy (field free_desk (js ''price''))"
    by (simp add: free_desk_def js_def)
  have u: "\<not> truthy (field unnamed_desk (js ''name''))"
    by (simp add: unnamed_desk_def js_def)
  have d: "field desk (js ''name'') = Some (JStr (js ''Desk''))"
    "field desk (js ''price'') = Some (JNum 120)"
    "field desk (js ''category'') = None"
    "field desk (js ''description'') = None"
    "field desk (js ''inStock'') = Some (JBool False)"
    by (simp_all add: desk_def js_def)
  have t: "truthy (Some (JStr (js ''Desk'')))" "truthy (Some (JNum 120))"
    by (simp_all add: js_def)
  have n: "free_desk \<noteq> JNull" "unnamed_desk \<noteq> JNull" "desk \<noteq> JNull"
    by (simp_all add: free_desk_def unnamed_desk_def desk_def)
  have fin: "finite_json desk"
    by (simp add: desk_def)
  have r1: "POST clock_example (Some free_desk) = missing_fields_response"
    using POST_validation [of clock_example free_desk] n f by blast
  have r2: "POST clock_example (Some unnamed_desk) = missing_fields_response"
    using POST_validation [of clock_example unnamed_desk] n u by blast
  have r3: "POST clock_example (Some desk) =
        \<lparr>post_status = 201,
         post_body = JObj
           [(js ''id'', JStr (date_now clock_example)),
            (js ''name'', stringify (JStr (js ''Desk''))),
            (js ''price'', stringify (JNum 120)),
            (js ''category'',
               stringify (submitted_or (field desk (js ''category'')) (JStr (js ''Uncategorized'')))),
            (js ''description'',
               stringify (submitted_or (field desk (js ''description'')) (JStr []))),
            (js ''inStock'',
               stringify (present_or (field desk (js ''inStock'')) (JBool True))),
            (js ''createdAt'', JStr (date_iso clock_example))]\<rparr>"
    using POST_validation [of clock_example desk "JStr (js ''Desk'')" "JNum 120"] n t d(1,2)
    by blast
  have r4: "POST clock_example (Some desk) =
     \<lparr>post_status = 201,
      post_body = JObj
        [(js ''id'', JStr (js ''1700000000000'')),
         (js ''name'', JStr (js ''Desk'')),
         (js ''price'', JNum 120),
         (js ''category'', JStr (js ''Uncategorized'')),
         (js ''description'', JStr []),
         (js ''inStock'', JBool False),
         (js ''createdAt'', JStr (js ''2023-11-14T22:13:20.000Z''))]\<rparr>"
    unfolding r3 d by (simp add: clock_example_def)
  have r5: "stringify desk = desk"
    using POST_validation [of clock_example desk _ _ desk] fin by blast
  show ?thesis
    using n t d(1,2) r1 r2 r4 r5 fin by blast
qed

end
